theory Spec2Isabelle
  imports Main
begin

section \<open>Python strings\<close>

text \<open>
  A Python \<open>str\<close> is modelled as a \<open>string\<close>: a list of 8-bit characters, read as the
  code points U+0000 to U+00FF. The library functions that \<open>parsers.py\<close> calls on strings
  are written out below with the behaviour the Python documentation gives them on that range.
\<close>

abbreviation nl :: char where
  "nl \<equiv> CHR 0x0A"

definition isspace :: "char \<Rightarrow> bool" where
  \<comment> \<open>\<open>str.isspace\<close> on one character: TAB, LF, VT, FF, CR, FS, GS, RS, US, SPACE, NEL, NBSP.\<close>
  "isspace c =
     (let n = (of_char c :: nat)
      in (9 \<le> n \<and> n \<le> 13) \<or> (28 \<le> n \<and> n \<le> 32) \<or> n = 133 \<or> n = 160)"

definition strip :: "string \<Rightarrow> string" where
  \<comment> \<open>\<open>s.strip()\<close>: drop the whitespace at both ends.\<close>
  "strip s = rev (dropWhile isspace (rev (dropWhile isspace s)))"

fun split :: "char \<Rightarrow> string \<Rightarrow> string list" where
  \<comment> \<open>\<open>s.split(sep)\<close> for a one-character separator: always at least one piece.\<close>
  "split sep [] = [[]]"
| "split sep (c # cs) =
     (if c = sep then [] # split sep cs
      else (c # hd (split sep cs)) # tl (split sep cs))"

fun join :: "string \<Rightarrow> string list \<Rightarrow> string" where
  \<comment> \<open>\<open>sep.join(pieces)\<close>\<close>
  "join sep [] = []"
| "join sep [x] = x"
| "join sep (x # y # ys) = x @ sep @ join sep (y # ys)"

function re_sub_newlines :: "string \<Rightarrow> string" where
  \<comment> \<open>\<open>re.sub(r'\n+', '\n', text)\<close>: every maximal run of newlines becomes one newline.\<close>
  "re_sub_newlines [] = []"
| "re_sub_newlines (c # cs) =
     (if c = nl then nl # re_sub_newlines (dropWhile (\<lambda>x. x = nl) cs)
      else c # re_sub_newlines cs)"
  by pat_completeness auto
termination
  by (relation "measure length") (auto simp: length_dropWhile_le less_Suc_eq_le)

section \<open>The text normalizer\<close>

definition clean_text :: "string \<Rightarrow> string" where
  "clean_text text =
     (let text1 = re_sub_newlines text;
          text2 = join [nl] (map strip (split nl text1))
      in strip text2)"

section \<open>Paths and extensions\<close>

definition lower_char :: "char \<Rightarrow> char" where
  \<comment> \<open>\<open>str.lower\<close> on one character: A to Z, and the Latin-1 capitals U+00C0 to U+00DE
      without the multiplication sign U+00D7, move up by 32.\<close>
  "lower_char c =
     (let n = (of_char c :: nat)
      in if (65 \<le> n \<and> n \<le> 90) \<or> (192 \<le> n \<and> n \<le> 222 \<and> n \<noteq> 215)
         then char_of (n + 32) else c)"

definition lower :: "string \<Rightarrow> string" where
  "lower s = map lower_char s"

definition rfind :: "char \<Rightarrow> string \<Rightarrow> int" where
  \<comment> \<open>\<open>p.rfind(c)\<close>: the index of the last occurrence of \<open>c\<close>, or -1.\<close>
  "rfind c p =
     (if c \<in> set p
      then int (length p - 1 - length (takeWhile (\<lambda>x. x \<noteq> c) (rev p)))
      else - 1)"

fun has_non_dot :: "string \<Rightarrow> bool" where
  \<comment> \<open>The \<open>while\<close> loop of \<open>splitext\<close> over \<open>p[filenameIndex:dotIndex]\<close>: it returns the
      split at the first character that is not a dot, and falls through when it finds none.\<close>
  "has_non_dot [] = False"
| "has_non_dot (c # cs) = (if c \<noteq> CHR ''.'' then True else has_non_dot cs)"

definition splitext :: "string \<Rightarrow> string \<times> string" where
  \<comment> \<open>\<open>os.path.splitext\<close> of \<open>posixpath\<close>: the extension starts at the last dot of the last
      path component, and leading dots of that component do not start an extension.\<close>
  "splitext p =
     (let sepIndex = rfind CHR ''/'' p;
          dotIndex = rfind CHR ''.'' p
      in if dotIndex > sepIndex
            \<and> has_non_dot (take (nat dotIndex - nat (sepIndex + 1)) (drop (nat (sepIndex + 1)) p))
         then (take (nat dotIndex) p, drop (nat dotIndex) p)
         else (p, []))"

section \<open>Exceptions and the libraries behind the parsers\<close>

datatype exn = Exception (message: string)
  \<comment> \<open>An instance of \<open>Exception\<close> raised by a library, with what \<open>str(e)\<close> gives.\<close>

datatype error =
    UnsupportedFileType string
  | ParsingError string
  | Uncaught exn
  \<comment> \<open>What leaves \<open>process_document\<close> when it does not return: one of the module's two
      exception classes with its message, or a library's exception that nothing caught.\<close>

datatype picture = File_path string | Original nat
  \<comment> \<open>What \<open>pytesseract.image_to_string\<close> is given: a path, or the raster of a rendered page.\<close>

record page =
  extract_text :: "exn + string option"
  to_image :: "exn + picture"

datatype cell_value = PyNone | PyBool bool | PyInt int | PyStr string | PyOther bool string
  \<comment> \<open>The value of a worksheet cell. \<open>PyOther t r\<close> is any other object (a float, a date),
      by its truth value \<open>t\<close> and its rendering \<open>r\<close> under \<open>str\<close>.\<close>

record epub_item =
  get_type :: nat
  get_content :: string

definition ITEM_DOCUMENT :: nat where
  "ITEM_DOCUMENT = 9"

record world =
  getsize :: "string \<Rightarrow> exn + nat"
  from_file :: "string \<Rightarrow> exn + string"
  pdfplumber_open :: "string \<Rightarrow> exn + page list"
  image_to_string :: "picture \<Rightarrow> exn + string"
  Document :: "string \<Rightarrow> exn + string list"
  load_workbook :: "string \<Rightarrow> exn + cell_value list list list"
  Presentation :: "string \<Rightarrow> exn + string option list list"
  read_utf8 :: "string \<Rightarrow> exn + string"
  read_default :: "string \<Rightarrow> exn + string"
  csv_reader :: "string \<Rightarrow> exn + string list list"
  odf_load :: "string \<Rightarrow> exn + string list"
  rtf_to_text :: "string \<Rightarrow> exn + string"
  get_text :: "string \<Rightarrow> exn + string"
  read_epub :: "string \<Rightarrow> exn + epub_item list"
  render :: "string \<Rightarrow> exn + string"

text \<open>
  The record \<open>world\<close> holds what each library call of \<open>parsers.py\<close> answers: a value, or the
  exception it raises. \<open>getsize\<close> is \<open>os.path.getsize\<close>; \<open>from_file\<close> is
  \<open>magic.from_file(path, mime=True)\<close>; \<open>pdfplumber_open\<close> gives the pages of the document;
  \<open>Document\<close> gives the texts of the paragraphs of a DOCX file; \<open>load_workbook\<close> gives, for
  each worksheet in workbook order, the rows of \<open>iter_rows()\<close> as lists of cell values;
  \<open>Presentation\<close> gives, for each slide, the \<open>text\<close> attribute of each shape (\<open>None\<close> for a
  shape without one); \<open>read_utf8\<close> and \<open>read_default\<close> are \<open>open(path, "r", ...).read()\<close> with
  and without \<open>encoding="utf-8"\<close>; \<open>csv_reader\<close> gives the rows \<open>csv.reader\<close> reads from the
  file; \<open>odf_load\<close> gives \<open>teletype.extractText\<close> of each paragraph element; \<open>get_text\<close> is
  \<open>BeautifulSoup(markup, "html.parser").get_text()\<close>; \<open>read_epub\<close> gives the items of the
  book; \<open>render\<close> is \<open>MarkdownIt().render\<close>.
\<close>

section \<open>The format parsers\<close>

definition reraise :: "string \<Rightarrow> exn + 'a \<Rightarrow> error + 'a" where
  \<comment> \<open>\<open>try: ... except Exception as e: raise ParsingError(f"<prefix>{e}")\<close> around a body
      whose outcome is \<open>r\<close>.\<close>
  "reraise prefix r =
     (case r of Inl e \<Rightarrow> Inl (ParsingError (prefix @ message e)) | Inr x \<Rightarrow> Inr x)"

subsection \<open>PDF\<close>

fun pdf_pages ::
  "(picture \<Rightarrow> exn + string) \<Rightarrow> page list \<Rightarrow> string \<times> page list \<Rightarrow> (exn + string) \<times> page list"
where
  \<comment> \<open>The loop over \<open>pdf.pages\<close>. The state is the text so far and, for the record only, the
      pages whose image has been handed to the OCR engine so far. The result is the outcome
      of the loop (the text, or the exception that stopped it) and that record, which a
      page enters when \<open>pytesseract.image_to_string\<close> is called on it, whether or not the
      engine answers.\<close>
  "pdf_pages ocr [] (text, ocrd) = (Inr text, ocrd)"
| "pdf_pages ocr (page # pages) (text, ocrd) =
     (case extract_text page of
        Inl e \<Rightarrow> (Inl e, ocrd)
      | Inr page_text \<Rightarrow>
          if page_text \<noteq> None \<and> page_text \<noteq> Some []
          then pdf_pages ocr pages (text @ the page_text @ [nl], ocrd)
          else (case to_image page of
                  Inl e \<Rightarrow> (Inl e, ocrd)
                | Inr page_image \<Rightarrow>
                    (case ocr page_image of
                       Inl e \<Rightarrow> (Inl e, ocrd @ [page])
                     | Inr s \<Rightarrow> pdf_pages ocr pages (text @ s @ [nl], ocrd @ [page]))))"

definition parse_pdf_try :: "world \<Rightarrow> string \<Rightarrow> (exn + string) \<times> page list" where
  "parse_pdf_try w file_path =
     (case pdfplumber_open w file_path of
        Inl e \<Rightarrow> (Inl e, [])
      | Inr pages \<Rightarrow> pdf_pages (image_to_string w) pages ([], []))"

definition parse_pdf :: "world \<Rightarrow> string \<Rightarrow> error + string" where
  "parse_pdf w file_path =
     reraise ''Error parsing PDF: '' (fst (parse_pdf_try w file_path))"

subsection \<open>DOCX\<close>

definition parse_docx_try :: "world \<Rightarrow> string \<Rightarrow> exn + string" where
  "parse_docx_try w file_path =
     (case Document w file_path of
        Inl e \<Rightarrow> Inl e
      | Inr paragraphs \<Rightarrow> Inr (join [nl] paragraphs))"

definition parse_docx :: "world \<Rightarrow> string \<Rightarrow> error + string" where
  "parse_docx w file_path = reraise ''Error parsing DOCX: '' (parse_docx_try w file_path)"

subsection \<open>XLSX\<close>

fun digits :: "nat \<Rightarrow> string" where
  \<comment> \<open>The decimal digits of a natural number.\<close>
  "digits n =
     (if n < 10 then [char_of (48 + n)]
      else digits (n div 10) @ [char_of (48 + n mod 10)])"

declare digits.simps [simp del]

fun truthy :: "cell_value \<Rightarrow> bool" where
  \<comment> \<open>The truth value of a cell value, as \<open>if cell.value\<close> tests it.\<close>
  "truthy PyNone = False"
| "truthy (PyBool b) = b"
| "truthy (PyInt i) = (i \<noteq> 0)"
| "truthy (PyStr s) = (s \<noteq> [])"
| "truthy (PyOther t r) = t"

fun str :: "cell_value \<Rightarrow> string" where
  \<comment> \<open>\<open>str(cell.value)\<close>\<close>
  "str PyNone = ''None''"
| "str (PyBool b) = (if b then ''True'' else ''False'')"
| "str (PyInt i) = (if i < 0 then CHR ''-'' # digits (nat (- i)) else digits (nat i))"
| "str (PyStr s) = s"
| "str (PyOther t r) = r"

fun xlsx_rows :: "cell_value list list \<Rightarrow> string \<Rightarrow> string" where
  \<comment> \<open>The loop over \<open>sheet.iter_rows()\<close>.\<close>
  "xlsx_rows [] text = text"
| "xlsx_rows (row # rows) text =
     xlsx_rows rows (text @ join [CHR 0x09] (map str (filter truthy row)) @ [nl])"

fun xlsx_sheets :: "cell_value list list list \<Rightarrow> string \<Rightarrow> string" where
  \<comment> \<open>The loop over \<open>workbook.worksheets\<close>.\<close>
  "xlsx_sheets [] text = text"
| "xlsx_sheets (sheet # sheets) text = xlsx_sheets sheets (xlsx_rows sheet text)"

definition parse_xlsx_try :: "world \<Rightarrow> string \<Rightarrow> exn + string" where
  "parse_xlsx_try w file_path =
     (case load_workbook w file_path of
        Inl e \<Rightarrow> Inl e
      | Inr worksheets \<Rightarrow> Inr (xlsx_sheets worksheets []))"

definition parse_xlsx :: "world \<Rightarrow> string \<Rightarrow> error + string" where
  "parse_xlsx w file_path = reraise ''Error parsing XLSX: '' (parse_xlsx_try w file_path)"

subsection \<open>PPTX\<close>

fun pptx_shapes :: "string option list \<Rightarrow> string \<Rightarrow> string" where
  \<comment> \<open>The loop over \<open>slide.shapes\<close>; \<open>hasattr(shape, "text")\<close> is the shape being \<open>Some\<close>.\<close>
  "pptx_shapes [] text = text"
| "pptx_shapes (shape # shapes) text =
     (case shape of
        Some t \<Rightarrow> pptx_shapes shapes (text @ t @ [nl])
      | None \<Rightarrow> pptx_shapes shapes text)"

fun pptx_slides :: "string option list list \<Rightarrow> string \<Rightarrow> string" where
  "pptx_slides [] text = text"
| "pptx_slides (slide # slides) text = pptx_slides slides (pptx_shapes slide text)"

definition parse_pptx_try :: "world \<Rightarrow> string \<Rightarrow> exn + string" where
  "parse_pptx_try w file_path =
     (case Presentation w file_path of
        Inl e \<Rightarrow> Inl e
      | Inr slides \<Rightarrow> Inr (pptx_slides slides []))"

definition parse_pptx :: "world \<Rightarrow> string \<Rightarrow> error + string" where
  "parse_pptx w file_path = reraise ''Error parsing PPTX: '' (parse_pptx_try w file_path)"

subsection \<open>Plain text, CSV, ODT, RTF, HTML, images\<close>

definition parse_text_try :: "world \<Rightarrow> string \<Rightarrow> exn + string" where
  "parse_text_try w file_path = read_utf8 w file_path"

definition parse_text :: "world \<Rightarrow> string \<Rightarrow> error + string" where
  "parse_text w file_path = reraise ''Error parsing text file: '' (parse_text_try w file_path)"

definition parse_csv_try :: "world \<Rightarrow> string \<Rightarrow> exn + string" where
  "parse_csv_try w file_path =
     (case csv_reader w file_path of
        Inl e \<Rightarrow> Inl e
      | Inr reader \<Rightarrow> Inr (join [nl] (map (join [CHR 0x09]) reader)))"

definition parse_csv :: "world \<Rightarrow> string \<Rightarrow> error + string" where
  "parse_csv w file_path = reraise ''Error parsing CSV: '' (parse_csv_try w file_path)"

definition parse_odt_try :: "world \<Rightarrow> string \<Rightarrow> exn + string" where
  "parse_odt_try w file_path =
     (case odf_load w file_path of
        Inl e \<Rightarrow> Inl e
      | Inr texts \<Rightarrow> Inr (join [nl] texts))"

definition parse_odt :: "world \<Rightarrow> string \<Rightarrow> error + string" where
  "parse_odt w file_path = reraise ''Error parsing ODT: '' (parse_odt_try w file_path)"

definition parse_rtf_try :: "world \<Rightarrow> string \<Rightarrow> exn + string" where
  "parse_rtf_try w file_path =
     (case read_default w file_path of
        Inl e \<Rightarrow> Inl e
      | Inr content \<Rightarrow> rtf_to_text w content)"

definition parse_rtf :: "world \<Rightarrow> string \<Rightarrow> error + string" where
  "parse_rtf w file_path = reraise ''Error parsing RTF: '' (parse_rtf_try w file_path)"

definition parse_html_try :: "world \<Rightarrow> string \<Rightarrow> exn + string" where
  "parse_html_try w file_path =
     (case read_utf8 w file_path of
        Inl e \<Rightarrow> Inl e
      | Inr markup \<Rightarrow> get_text w markup)"

definition parse_html :: "world \<Rightarrow> string \<Rightarrow> error + string" where
  "parse_html w file_path = reraise ''Error parsing HTML: '' (parse_html_try w file_path)"

definition parse_image_try :: "world \<Rightarrow> string \<Rightarrow> exn + string" where
  "parse_image_try w file_path = image_to_string w (File_path file_path)"

definition parse_image :: "world \<Rightarrow> string \<Rightarrow> error + string" where
  "parse_image w file_path = reraise ''Error parsing image: '' (parse_image_try w file_path)"

subsection \<open>EPUB and Markdown\<close>

fun epub_items :: "(string \<Rightarrow> exn + string) \<Rightarrow> epub_item list \<Rightarrow> string \<Rightarrow> exn + string" where
  \<comment> \<open>The loop over \<open>book.get_items()\<close>.\<close>
  "epub_items soup [] text = Inr text"
| "epub_items soup (item # items) text =
     (if get_type item = ITEM_DOCUMENT
      then (case soup (get_content item) of
              Inl e \<Rightarrow> Inl e
            | Inr s \<Rightarrow> epub_items soup items (text @ s @ [nl]))
      else epub_items soup items text)"

definition parse_epub_try :: "world \<Rightarrow> string \<Rightarrow> exn + string" where
  "parse_epub_try w file_path =
     (case read_epub w file_path of
        Inl e \<Rightarrow> Inl e
      | Inr items \<Rightarrow> epub_items (get_text w) items [])"

definition parse_epub :: "world \<Rightarrow> string \<Rightarrow> error + string" where
  "parse_epub w file_path = reraise ''Error parsing EPUB: '' (parse_epub_try w file_path)"

definition parse_markdown_try :: "world \<Rightarrow> string \<Rightarrow> exn + string" where
  "parse_markdown_try w file_path =
     (case read_utf8 w file_path of
        Inl e \<Rightarrow> Inl e
      | Inr source \<Rightarrow>
          (case render w source of
             Inl e \<Rightarrow> Inl e
           | Inr html \<Rightarrow> get_text w html))"

definition parse_markdown :: "world \<Rightarrow> string \<Rightarrow> error + string" where
  "parse_markdown w file_path =
     reraise ''Error parsing Markdown: '' (parse_markdown_try w file_path)"

section \<open>The extraction dispatcher\<close>

datatype parser =
    Parse_pdf | Parse_image | Parse_docx | Parse_xlsx | Parse_pptx | Parse_text
  | Parse_csv | Parse_odt | Parse_rtf | Parse_html | Parse_epub | Parse_markdown
  \<comment> \<open>The parser functions as values: what the dictionary holds and \<open>parser\<close> is bound to.\<close>

fun call :: "parser \<Rightarrow> world \<Rightarrow> string \<Rightarrow> error + string" where
  \<comment> \<open>\<open>parser(file_path)\<close>\<close>
  "call Parse_pdf = parse_pdf"
| "call Parse_image = parse_image"
| "call Parse_docx = parse_docx"
| "call Parse_xlsx = parse_xlsx"
| "call Parse_pptx = parse_pptx"
| "call Parse_text = parse_text"
| "call Parse_csv = parse_csv"
| "call Parse_odt = parse_odt"
| "call Parse_rtf = parse_rtf"
| "call Parse_html = parse_html"
| "call Parse_epub = parse_epub"
| "call Parse_markdown = parse_markdown"

definition parser_dispatcher_mime :: "(string \<times> parser) list" where
  "parser_dispatcher_mime =
     [(''application/pdf'', Parse_pdf),
      (''image/jpeg'', Parse_image),
      (''image/png'', Parse_image),
      (''image/tiff'', Parse_image),
      (''application/vnd.openxmlformats-officedocument.wordprocessingml.document'', Parse_docx),
      (''application/vnd.openxmlformats-officedocument.spreadsheetml.sheet'', Parse_xlsx),
      (''application/vnd.openxmlformats-officedocument.presentationml.presentation'', Parse_pptx),
      (''text/plain'', Parse_text),
      (''text/csv'', Parse_csv),
      (''application/vnd.oasis.opendocument.text'', Parse_odt),
      (''application/rtf'', Parse_rtf),
      (''text/rtf'', Parse_rtf),
      (''text/html'', Parse_html),
      (''application/epub+zip'', Parse_epub),
      (''text/markdown'', Parse_markdown)]"

datatype event = Getsize string | From_file string | Called parser string
  \<comment> \<open>The calls \<open>process_document\<close> makes, in order: the size query, the content sniffer,
      a parser.\<close>

definition process_document :: "world \<Rightarrow> string \<Rightarrow> event list \<times> (error + string \<times> string)" where
  \<comment> \<open>The result is the calls made and the outcome: the pair returned, or what is raised.
      \<open>map_of\<close> is the dictionary lookup: \<open>None\<close> when the key is absent, which leaves
      \<open>parser\<close> at its initial \<open>None\<close>.\<close>
  "process_document w file_path =
     (case getsize w file_path of
        Inl e \<Rightarrow> ([Getsize file_path], Inl (Uncaught e))
      | Inr n \<Rightarrow>
          if n = 0 then ([Getsize file_path], Inr ([], ''inode/x-empty''))
          else
            (case from_file w file_path of
               Inl e \<Rightarrow> ([Getsize file_path, From_file file_path], Inl (Uncaught e))
             | Inr mime_type \<Rightarrow>
                 let file_extension = lower (snd (splitext file_path));
                     (parser, mime_type) =
                       (if mime_type = ''text/plain''
                        then (if file_extension = ''.csv'' then (Some Parse_csv, ''text/csv'')
                              else if file_extension = ''.md''
                              then (Some Parse_markdown, ''text/markdown'')
                              else (Some Parse_text, mime_type))
                        else (map_of parser_dispatcher_mime mime_type, mime_type))
                 in (case parser of
                       Some p \<Rightarrow>
                         ([Getsize file_path, From_file file_path, Called p file_path],
                          (case call p w file_path of
                             Inl e \<Rightarrow> Inl e
                           | Inr raw_text \<Rightarrow> Inr (clean_text raw_text, mime_type)))
                     | None \<Rightarrow>
                         ([Getsize file_path, From_file file_path],
                          Inl (UnsupportedFileType (''Unsupported file type: '' @ mime_type))))))"

section \<open>A sample file system\<close>

text \<open>
  One world with a few files, for evaluating the definitions: an empty file, text files
  with several extensions, an archive, a workbook, and PDF documents that open or fail to.
  A page made by \<open>text_page\<close> has a text layer; a page made by \<open>scanned_page\<close> has none
  and renders to the raster of the given number.
\<close>

definition absent :: "'a \<Rightarrow> exn + 'b" where
  "absent x = Inl (Exception ''No such file or directory'')"

definition text_page :: "string \<Rightarrow> page" where
  "text_page t = \<lparr>extract_text = Inr (Some t), to_image = Inr (Original 0)\<rparr>"

definition scanned_page :: "nat \<Rightarrow> page" where
  "scanned_page k = \<lparr>extract_text = Inr (Some []), to_image = Inr (Original k)\<rparr>"

definition sample :: world where
  "sample =
     \<lparr>getsize = (\<lambda>p. if p = ''/tmp/empty.csv'' then Inr 0 else Inr 64),
      from_file = (\<lambda>p.
         if p = ''/tmp/archive.zip'' then Inr ''application/zip''
         else if p = ''/tmp/broken.pdf'' \<or> p = ''/tmp/scan.pdf'' \<or> p = ''/tmp/one.pdf''
         then Inr ''application/pdf''
         else if p = ''/tmp/book.xlsx''
         then Inr ''application/vnd.openxmlformats-officedocument.spreadsheetml.sheet''
         else Inr ''text/plain''),
      pdfplumber_open = (\<lambda>p.
         if p = ''/tmp/scan.pdf'' then Inr [text_page ''x'', scanned_page 7, text_page ''.'']
         else if p = ''/tmp/one.pdf'' then Inr [text_page ''x'']
         else Inl (Exception ''No /Root object! - Is this really a PDF?'')),
      image_to_string = (\<lambda>i. if i = Original 7 then Inr ''y'' else absent i),
      Document = absent,
      load_workbook = (\<lambda>p.
         if p = ''/tmp/book.xlsx'' then Inr [[[PyInt 1, PyInt 0, PyInt 2]]] else absent p),
      Presentation = absent,
      read_utf8 = (\<lambda>p.
         if p = ''/tmp/notes.md'' \<or> p = ''/tmp/NOTES.Md'' then Inr ''# Hi''
         else if p = ''/tmp/latin1.txt'' then Inl (Exception ''invalid start byte'')
         else Inr ''hello ''),
      read_default = absent,
      csv_reader = (\<lambda>p. Inr [[''a'', ''b''], [''c'']]),
      odf_load = absent,
      rtf_to_text = absent,
      get_text = (\<lambda>m. if m = ''<h1>Hi</h1>'' then Inr ''Hi'' else absent m),
      read_epub = absent,
      render = (\<lambda>s. if s = ''# Hi'' then Inr ''<h1>Hi</h1>'' else absent s)\<rparr>"



section \<open>Notions used in the statements\<close>

definition spec_registered_mime_types :: "string list" where
  \<comment> \<open>The list of registered MIME types as section 6 of the specification writes it, to be
      compared with the keys of \<open>parser_dispatcher_mime\<close>.\<close>
  "spec_registered_mime_types =
     [''application/pdf'', ''image/jpeg'', ''image/png'', ''image/tiff'',
      ''application/vnd.openxmlformats-officedocument.wordprocessingml.document'',
      ''application/vnd.openxmlformats-officedocument.spreadsheetml.sheet'',
      ''application/vnd.openxmlformats-officedocument.presentationml.presentation'',
      ''text/plain'', ''text/csv'', ''application/vnd.oasis.opendocument.text'',
      ''application/rtf'', ''text/rtf'', ''text/html'', ''application/epub+zip'',
      ''text/markdown'', ''inode/x-empty'']"

fun try_block :: "parser \<Rightarrow> world \<Rightarrow> string \<Rightarrow> exn + string" where
  \<comment> \<open>The outcome of the body of a parser's \<open>try\<close>: the text, or the exception raised in it.\<close>
  "try_block Parse_pdf w file_path = fst (parse_pdf_try w file_path)"
| "try_block Parse_image w file_path = parse_image_try w file_path"
| "try_block Parse_docx w file_path = parse_docx_try w file_path"
| "try_block Parse_xlsx w file_path = parse_xlsx_try w file_path"
| "try_block Parse_pptx w file_path = parse_pptx_try w file_path"
| "try_block Parse_text w file_path = parse_text_try w file_path"
| "try_block Parse_csv w file_path = parse_csv_try w file_path"
| "try_block Parse_odt w file_path = parse_odt_try w file_path"
| "try_block Parse_rtf w file_path = parse_rtf_try w file_path"
| "try_block Parse_html w file_path = parse_html_try w file_path"
| "try_block Parse_epub w file_path = parse_epub_try w file_path"
| "try_block Parse_markdown w file_path = parse_markdown_try w file_path"

fun format_name :: "parser \<Rightarrow> string" where
  \<comment> \<open>The name by which a parser's error message calls its format.\<close>
  "format_name Parse_pdf = ''PDF''"
| "format_name Parse_image = ''image''"
| "format_name Parse_docx = ''DOCX''"
| "format_name Parse_xlsx = ''XLSX''"
| "format_name Parse_pptx = ''PPTX''"
| "format_name Parse_text = ''text file''"
| "format_name Parse_csv = ''CSV''"
| "format_name Parse_odt = ''ODT''"
| "format_name Parse_rtf = ''RTF''"
| "format_name Parse_html = ''HTML''"
| "format_name Parse_epub = ''EPUB''"
| "format_name Parse_markdown = ''Markdown''"





definition csv_variants :: "string set" where
  \<comment> \<open>The spellings of \<open>.csv\<close> in upper and lower case.\<close>
  "csv_variants =
     {''.csv'', ''.csV'', ''.cSv'', ''.cSV'', ''.Csv'', ''.CsV'', ''.CSv'', ''.CSV''}"

definition md_variants :: "string set" where
  \<comment> \<open>The spellings of \<open>.md\<close> in upper and lower case.\<close>
  "md_variants = {''.md'', ''.mD'', ''.Md'', ''.MD''}"

section \<open>Properties of the text normalizer\<close>

lemma isspace_simps:
  "isspace nl" "isspace CHR '' ''" "\<not> isspace CHR ''a''" "\<not> isspace CHR ''b''"
  "\<not> isspace CHR ''c''"
  by (simp_all add: isspace_def)

text \<open>
  C2, at the specification's own example. On the text \<open>a\n\n\nb \n \nc\<close> the run of three
  newlines is collapsed first, and only afterwards are the lines stripped; the line holding
  a single space becomes an empty line at that point and stays. The normalizer returns
  \<open>a\nb\n\nc\<close>, which has a blank line and two consecutive newlines, where the
  specification gives \<open>a\nb\nc\<close>.
\<close>

theorem clean_text_spec_example:
  "clean_text ''a\<newline>\<newline>\<newline>b \<newline> \<newline>c'' = ''a\<newline>b\<newline>\<newline>c''
   \<and> clean_text ''a\<newline>\<newline>\<newline>b \<newline> \<newline>c'' \<noteq> ''a\<newline>b\<newline>c''"
  by (simp add: clean_text_def strip_def isspace_simps)

text \<open>
  C1, at a failing input. A line of whitespace between two newlines survives the first
  pass as an empty line: \<open>clean_text\<close> maps \<open>a\n \nb\<close> to \<open>a\n\nb\<close>, and a second pass
  maps that to \<open>a\nb\<close>. The two results differ, so the normalizer is not idempotent there.
\<close>

theorem clean_text_twice_differs:
  "clean_text ''a\<newline> \<newline>b'' = ''a\<newline>\<newline>b''
   \<and> clean_text (clean_text ''a\<newline> \<newline>b'') = ''a\<newline>b''
   \<and> clean_text (clean_text ''a\<newline> \<newline>b'') \<noteq> clean_text ''a\<newline> \<newline>b''"
  by (simp add: clean_text_def strip_def isspace_simps)

text \<open>
  What the normalizer does guarantee: a result that is not empty neither starts nor ends
  with a whitespace character.
\<close>

lemma strip_ends:
  assumes "strip s \<noteq> []"
  shows "\<not> isspace (hd (strip s))" and "\<not> isspace (last (strip s))"
proof -
  let ?r = "dropWhile isspace (rev (dropWhile isspace s))"
  from assms have r: "?r \<noteq> []" by (simp add: strip_def)
  then have "\<not> isspace (hd ?r)" by (rule hd_dropWhile)
  then show "\<not> isspace (last (strip s))"
    using r by (simp add: strip_def last_rev)
  from r obtain xs where xs: "rev (dropWhile isspace s) = xs @ ?r"
    by (metis takeWhile_dropWhile_id)
  have d: "dropWhile isspace s \<noteq> []" using r by (intro notI) simp
  then have h: "\<not> isspace (hd (dropWhile isspace s))" by (rule hd_dropWhile)
  have "strip s = rev ?r" by (simp add: strip_def)
  have "dropWhile isspace s = rev ?r @ rev xs"
    using xs by (metis rev_append rev_rev_ident)
  then have "hd (dropWhile isspace s) = hd (rev ?r)"
    using r by (metis hd_append2 rev_is_Nil_conv)
  with h show "\<not> isspace (hd (strip s))" by (simp add: strip_def)
qed

lemma clean_text_ends:
  assumes "clean_text s \<noteq> []"
  shows "\<not> isspace (hd (clean_text s)) \<and> \<not> isspace (last (clean_text s))"
  using assms strip_ends unfolding clean_text_def Let_def by blast

section \<open>Facts about the sample file system\<close>

lemma sample_getsize: "p \<noteq> ''/tmp/empty.csv'' \<Longrightarrow> getsize sample p = Inr 64"
  by (simp add: sample_def)

lemma sample_from_file:
  "from_file sample ''/tmp/data.csv'' = Inr ''text/plain''"
  "from_file sample ''/tmp/notes.md'' = Inr ''text/plain''"
  "from_file sample ''/tmp/readme.txt'' = Inr ''text/plain''"
  "from_file sample ''/tmp/one.pdf'' = Inr ''application/pdf''"
  "from_file sample ''/tmp/archive.zip'' = Inr ''application/zip''"
  "from_file sample ''/tmp/DATA.Csv'' = Inr ''text/plain''"
  "from_file sample ''/tmp/NOTES.Md'' = Inr ''text/plain''"
  by (simp_all add: sample_def)

lemma sample_extensions:
  "lower (snd (splitext ''/tmp/data.csv'')) = ''.csv''"
  "lower (snd (splitext ''/tmp/notes.md'')) = ''.md''"
  "lower (snd (splitext ''/tmp/readme.txt'')) = ''.txt''"
  by (simp_all add: splitext_def rfind_def lower_def lower_char_def)

lemma sample_parsers:
  "parse_csv sample p = Inr [CHR ''a'', CHR 0x09, CHR ''b'', nl, CHR ''c'']"
  "parse_markdown sample ''/tmp/notes.md'' = Inr ''Hi''"
  "parse_markdown sample ''/tmp/NOTES.Md'' = Inr ''Hi''"
  "parse_text sample ''/tmp/readme.txt'' = Inr ''hello ''"
  "parse_pdf sample ''/tmp/one.pdf'' = Inr ''x\<newline>''"
  by (simp_all add: sample_def parse_csv_def parse_csv_try_def parse_markdown_def
      parse_markdown_try_def parse_text_def parse_text_try_def parse_pdf_def parse_pdf_try_def
      reraise_def text_page_def)

lemma sample_cleaned:
  "clean_text [CHR ''a'', CHR 0x09, CHR ''b'', nl, CHR ''c'']
     = [CHR ''a'', CHR 0x09, CHR ''b'', nl, CHR ''c'']"
  "clean_text ''Hi'' = ''Hi''"
  "clean_text ''hello '' = ''hello''"
  "clean_text ''x\<newline>'' = ''x''"
  by (simp_all add: clean_text_def strip_def isspace_def)


section \<open>Properties of the dispatcher\<close>

lemma text_plain_registered: "map_of parser_dispatcher_mime ''text/plain'' = Some Parse_text"
  by (simp add: parser_dispatcher_mime_def)

lemma registered_iff:
  "(map_of parser_dispatcher_mime m \<noteq> None) =
     (m \<in> set spec_registered_mime_types \<and> m \<noteq> ''inode/x-empty'')"
  unfolding parser_dispatcher_mime_def spec_registered_mime_types_def
  by auto

lemma process_document_sniffed:
  assumes "getsize w file_path = Inr n" and "n \<noteq> 0"
    and "from_file w file_path = Inr mime_type"
  shows "process_document w file_path =
     (let file_extension = lower (snd (splitext file_path));
          (parser, mime_type) =
             (if mime_type = ''text/plain''
              then (if file_extension = ''.csv'' then (Some Parse_csv, ''text/csv'')
                    else if file_extension = ''.md''
                    then (Some Parse_markdown, ''text/markdown'')
                    else (Some Parse_text, mime_type))
              else (map_of parser_dispatcher_mime mime_type, mime_type))
      in (case parser of
            Some p \<Rightarrow>
              ([Getsize file_path, From_file file_path, Called p file_path],
               (case call p w file_path of
                  Inl e \<Rightarrow> Inl e
                | Inr raw_text \<Rightarrow> Inr (clean_text raw_text, mime_type)))
          | None \<Rightarrow>
              ([Getsize file_path, From_file file_path],
               Inl (UnsupportedFileType (''Unsupported file type: '' @ mime_type)))))"
  using assms by (simp add: process_document_def)

text \<open>
  C3. For a file of size zero, whatever its path, \<open>process_document\<close> returns the pair of
  the empty text and \<open>inode/x-empty\<close>, and the only call it has made is the size query:
  the content sniffer is not called, and no parser is looked up or called.
\<close>

theorem zero_bytes_short_circuit:
  assumes "getsize w file_path = Inr 0"
  shows "process_document w file_path = ([Getsize file_path], Inr ('''', ''inode/x-empty''))"
  using assms by (simp add: process_document_def)

theorem zero_bytes_short_circuit_witness:
  "process_document sample ''/tmp/empty.csv''
     = ([Getsize ''/tmp/empty.csv''], Inr ('''', ''inode/x-empty''))"
  using zero_bytes_short_circuit[of sample "''/tmp/empty.csv''"] by (simp add: sample_def)

text \<open>
  C4. For a non-empty file, with \<open>file_extension\<close> the lower-cased extension the code
  compares. When the sniffed type is \<open>text/plain\<close>: extension \<open>.csv\<close> calls the CSV parser
  and the type returned with its text is \<open>text/csv\<close>; extension \<open>.md\<close> calls the Markdown
  parser and the type is \<open>text/markdown\<close>; any other extension, or none, calls the
  plain-text parser and the type stays \<open>text/plain\<close>. When the sniffed type is not
  \<open>text/plain\<close>, the outcome is determined by the dictionary entry of the sniffed type
  alone and the type returned or reported is the sniffed one: the extension has no part
  in it.
\<close>

theorem text_plain_disambiguation:
  assumes "getsize w file_path = Inr n" and "n \<noteq> 0"
    and "from_file w file_path = Inr mime_type"
  shows
    "(mime_type = ''text/plain'' \<and> lower (snd (splitext file_path)) = ''.csv'' \<longrightarrow>
        process_document w file_path =
          ([Getsize file_path, From_file file_path, Called Parse_csv file_path],
           (case parse_csv w file_path of
              Inl e \<Rightarrow> Inl e
            | Inr raw_text \<Rightarrow> Inr (clean_text raw_text, ''text/csv''))))
   \<and> (mime_type = ''text/plain'' \<and> lower (snd (splitext file_path)) = ''.md'' \<longrightarrow>
        process_document w file_path =
          ([Getsize file_path, From_file file_path, Called Parse_markdown file_path],
           (case parse_markdown w file_path of
              Inl e \<Rightarrow> Inl e
            | Inr raw_text \<Rightarrow> Inr (clean_text raw_text, ''text/markdown''))))
   \<and> (mime_type = ''text/plain'' \<and> lower (snd (splitext file_path)) \<noteq> ''.csv''
        \<and> lower (snd (splitext file_path)) \<noteq> ''.md'' \<longrightarrow>
        process_document w file_path =
          ([Getsize file_path, From_file file_path, Called Parse_text file_path],
           (case parse_text w file_path of
              Inl e \<Rightarrow> Inl e
            | Inr raw_text \<Rightarrow> Inr (clean_text raw_text, ''text/plain''))))
   \<and> (mime_type \<noteq> ''text/plain'' \<longrightarrow>
        process_document w file_path =
          (case map_of parser_dispatcher_mime mime_type of
             Some p \<Rightarrow>
               ([Getsize file_path, From_file file_path, Called p file_path],
                (case call p w file_path of
                   Inl e \<Rightarrow> Inl e
                 | Inr raw_text \<Rightarrow> Inr (clean_text raw_text, mime_type)))
           | None \<Rightarrow>
               ([Getsize file_path, From_file file_path],
                Inl (UnsupportedFileType (''Unsupported file type: '' @ mime_type)))))"
  by (simp add: process_document_sniffed[OF assms])

theorem text_plain_disambiguation_witness:
  "process_document sample ''/tmp/data.csv'' =
     ([Getsize ''/tmp/data.csv'', From_file ''/tmp/data.csv'',
       Called Parse_csv ''/tmp/data.csv''],
      Inr ([CHR ''a'', CHR 0x09, CHR ''b'', nl, CHR ''c''], ''text/csv''))
   \<and> process_document sample ''/tmp/notes.md'' =
     ([Getsize ''/tmp/notes.md'', From_file ''/tmp/notes.md'',
       Called Parse_markdown ''/tmp/notes.md''],
      Inr (''Hi'', ''text/markdown''))
   \<and> process_document sample ''/tmp/readme.txt'' =
     ([Getsize ''/tmp/readme.txt'', From_file ''/tmp/readme.txt'',
       Called Parse_text ''/tmp/readme.txt''],
      Inr (''hello'', ''text/plain''))
   \<and> process_document sample ''/tmp/one.pdf'' =
     ([Getsize ''/tmp/one.pdf'', From_file ''/tmp/one.pdf'', Called Parse_pdf ''/tmp/one.pdf''],
      Inr (''x'', ''application/pdf''))"
  using text_plain_disambiguation[OF sample_getsize _ sample_from_file(1)]
    text_plain_disambiguation[OF sample_getsize _ sample_from_file(2)]
    text_plain_disambiguation[OF sample_getsize _ sample_from_file(3)]
    text_plain_disambiguation[OF sample_getsize _ sample_from_file(4)]
  by (simp add: sample_extensions sample_parsers sample_cleaned parser_dispatcher_mime_def)

text \<open>
  C7. For a non-empty file whose sniffed type has no entry in the dictionary (such a type
  is not \<open>text/plain\<close>, so it is also the resolved type), \<open>process_document\<close> raises
  \<open>UnsupportedFileType\<close> with a message that carries the type. It returns no result, and
  the calls made are the size query and the sniffer: no parser is called.
\<close>

theorem unsupported_type_raised:
  assumes "getsize w file_path = Inr n" and "n \<noteq> 0"
    and "from_file w file_path = Inr mime_type"
    and "map_of parser_dispatcher_mime mime_type = None"
  shows "process_document w file_path =
           ([Getsize file_path, From_file file_path],
            Inl (UnsupportedFileType (''Unsupported file type: '' @ mime_type)))"
proof -
  from assms(4) have "mime_type \<noteq> ''text/plain''"
    using text_plain_registered by auto
  with assms show ?thesis
    by (simp add: process_document_def)
qed

theorem unsupported_type_raised_witness:
  "process_document sample ''/tmp/archive.zip'' =
     ([Getsize ''/tmp/archive.zip'', From_file ''/tmp/archive.zip''],
      Inl (UnsupportedFileType ''Unsupported file type: application/zip''))"
  using unsupported_type_raised[OF sample_getsize _ sample_from_file(5)]
  by (simp add: parser_dispatcher_mime_def)

lemma call_not_unsupported: "call p w file_path \<noteq> Inl (UnsupportedFileType msg)"
  by (cases p)
    (simp_all add: reraise_def parse_pdf_def parse_image_def parse_docx_def parse_xlsx_def
      parse_pptx_def parse_text_def parse_csv_def parse_odt_def parse_rtf_def parse_html_def
      parse_epub_def parse_markdown_def split: sum.splits)

lemma called_not_unsupported:
  assumes "Called p file_path \<in> set (fst (process_document w file_path))"
  shows "snd (process_document w file_path) \<noteq> Inl (UnsupportedFileType msg)"
proof
  assume "snd (process_document w file_path) = Inl (UnsupportedFileType msg)"
  with assms have "\<exists>q. call q w file_path = Inl (UnsupportedFileType msg)"
    by (auto simp add: process_document_def Let_def
        split: sum.splits if_splits option.splits intro: exI[of _ Parse_csv]
        exI[of _ Parse_markdown] exI[of _ Parse_text])
  then show False using call_not_unsupported by blast
qed

text \<open>
  C9. The sixteen types of the specification's list are the fifteen keys of the dictionary
  and the sentinel \<open>inode/x-empty\<close>, and each has its handler. The sentinel belongs to the
  file of size zero, which the size guard answers with that type. The sniffer reports the
  sentinel for empty files only; so for a non-empty file, when the sniffed type is in the
  list it is one of the fifteen keys, a parser is found and called, and what
  \<open>process_document\<close> returns or raises is not \<open>UnsupportedFileType\<close>; and when the sniffed
  type is outside the list, \<open>process_document\<close> raises \<open>UnsupportedFileType\<close> with that type
  and calls no parser.
\<close>

theorem registered_types:
  assumes "getsize w file_path = Inr n"
    and "n \<noteq> 0 \<longrightarrow> from_file w file_path = Inr mime_type \<and> mime_type \<noteq> ''inode/x-empty''"
  shows
    "set spec_registered_mime_types = fst ` set parser_dispatcher_mime \<union> {''inode/x-empty''}
   \<and> length spec_registered_mime_types = 16 \<and> distinct spec_registered_mime_types
   \<and> (n = 0 \<longrightarrow>
        process_document w file_path = ([Getsize file_path], Inr ('''', ''inode/x-empty'')))
   \<and> (n \<noteq> 0 \<and> mime_type \<in> set spec_registered_mime_types \<longrightarrow>
        map_of parser_dispatcher_mime mime_type \<noteq> None
        \<and> (\<exists>p. fst (process_document w file_path) =
               [Getsize file_path, From_file file_path, Called p file_path])
        \<and> (\<forall>msg. snd (process_document w file_path) \<noteq> Inl (UnsupportedFileType msg)))
   \<and> (n \<noteq> 0 \<and> mime_type \<notin> set spec_registered_mime_types \<longrightarrow>
        process_document w file_path =
          ([Getsize file_path, From_file file_path],
           Inl (UnsupportedFileType (''Unsupported file type: '' @ mime_type))))"
proof (intro conjI impI)
  show "set spec_registered_mime_types = fst ` set parser_dispatcher_mime \<union> {''inode/x-empty''}"
    unfolding parser_dispatcher_mime_def spec_registered_mime_types_def by auto
  show "length spec_registered_mime_types = 16"
    by (simp add: spec_registered_mime_types_def)
  show "distinct spec_registered_mime_types"
    by (simp add: spec_registered_mime_types_def)
next
  assume "n = 0"
  with assms(1) show "process_document w file_path =
      ([Getsize file_path], Inr ('''', ''inode/x-empty''))"
    by (simp add: process_document_def)
next
  assume a: "n \<noteq> 0 \<and> mime_type \<in> set spec_registered_mime_types"
  with assms(2) have sniffed: "from_file w file_path = Inr mime_type"
    and real: "mime_type \<noteq> ''inode/x-empty''" by simp_all
  from a have n: "n \<noteq> 0" by simp
  from a real show key: "map_of parser_dispatcher_mime mime_type \<noteq> None"
    using registered_iff[of mime_type] by blast
  then obtain p where p: "map_of parser_dispatcher_mime mime_type = Some p" by auto
  show "\<exists>p. fst (process_document w file_path) =
               [Getsize file_path, From_file file_path, Called p file_path]"
    using p by (auto simp add: process_document_sniffed[OF assms(1) n sniffed] Let_def
        split: sum.splits)
  then show "\<forall>msg. snd (process_document w file_path) \<noteq> Inl (UnsupportedFileType msg)"
    using called_not_unsupported[of _ file_path w] by (metis last_in_set last_snoc list.discI append_Cons append_Nil)
next
  assume a: "n \<noteq> 0 \<and> mime_type \<notin> set spec_registered_mime_types"
  with assms(2) have sniffed: "from_file w file_path = Inr mime_type" by simp
  from a have n: "n \<noteq> 0" by simp
  from a have none: "map_of parser_dispatcher_mime mime_type = None"
    using registered_iff[of mime_type] by blast
  then have "mime_type \<noteq> ''text/plain''"
    using text_plain_registered by auto
  with none show "process_document w file_path =
          ([Getsize file_path, From_file file_path],
           Inl (UnsupportedFileType (''Unsupported file type: '' @ mime_type)))"
    by (simp add: process_document_sniffed[OF assms(1) n sniffed])
qed

theorem registered_types_witness:
  "process_document sample ''/tmp/empty.csv''
     = ([Getsize ''/tmp/empty.csv''], Inr ('''', ''inode/x-empty''))
   \<and> (\<exists>p. fst (process_document sample ''/tmp/one.pdf'') =
          [Getsize ''/tmp/one.pdf'', From_file ''/tmp/one.pdf'', Called p ''/tmp/one.pdf''])
   \<and> process_document sample ''/tmp/archive.zip'' =
       ([Getsize ''/tmp/archive.zip'', From_file ''/tmp/archive.zip''],
        Inl (UnsupportedFileType ''Unsupported file type: application/zip''))"
proof -
  have empty: "getsize sample ''/tmp/empty.csv'' = Inr 0"
    by (simp add: sample_def)
  have pdf: "getsize sample ''/tmp/one.pdf'' = Inr 64"
    and zip: "getsize sample ''/tmp/archive.zip'' = Inr 64"
    by (simp_all add: sample_getsize)
  have listed: "''application/pdf'' \<in> set spec_registered_mime_types"
    and unlisted: "''application/zip'' \<notin> set spec_registered_mime_types"
    by (simp_all add: spec_registered_mime_types_def)
  show ?thesis
    using registered_types[OF empty, of "''text/plain''"]
      registered_types[OF pdf, of "''application/pdf''"]
      registered_types[OF zip, of "''application/zip''"]
      listed unlisted
    by (simp add: sample_from_file)
qed

section \<open>Properties of the parsers\<close>

lemma called_then_outcome:
  assumes "Called p file_path \<in> set (fst (process_document w file_path))"
    and "call p w file_path = Inl err"
  shows "snd (process_document w file_path) = Inl err"
  using assms
  by (auto simp add: process_document_def Let_def split: sum.splits if_splits option.splits)

text \<open>
  C6. Let the body of the \<open>try\<close> of any of the twelve parsers raise an exception \<open>e\<close> (an
  instance of \<open>Exception\<close>, the class the handlers catch) on a file. Then the parser raises
  \<open>ParsingError\<close> whose message is \<open>Error parsing\<close>, the name of the format, a colon and
  \<open>str(e)\<close>; and when \<open>process_document\<close> has called that parser on the file, what
  it raises is that same \<open>ParsingError\<close>.
\<close>

theorem parsing_error_wrapped:
  assumes "try_block p w file_path = Inl e"
  shows "call p w file_path =
           Inl (ParsingError (''Error parsing '' @ format_name p @ '': '' @ message e))
       \<and> (Called p file_path \<in> set (fst (process_document w file_path)) \<longrightarrow>
            snd (process_document w file_path) =
              Inl (ParsingError (''Error parsing '' @ format_name p @ '': '' @ message e)))"
proof -
  have c: "call p w file_path =
           Inl (ParsingError (''Error parsing '' @ format_name p @ '': '' @ message e))"
    using assms
    by (cases p)
      (simp_all add: reraise_def parse_pdf_def parse_image_def parse_docx_def parse_xlsx_def
        parse_pptx_def parse_text_def parse_csv_def parse_odt_def parse_rtf_def parse_html_def
        parse_epub_def parse_markdown_def)
  with called_then_outcome show ?thesis by auto
qed

theorem parsing_error_wrapped_witness:
  "try_block Parse_pdf sample ''/tmp/broken.pdf'' =
     Inl (Exception ''No /Root object! - Is this really a PDF?'')
   \<and> call Parse_pdf sample ''/tmp/broken.pdf'' =
     Inl (ParsingError ''Error parsing PDF: No /Root object! - Is this really a PDF?'')
   \<and> snd (process_document sample ''/tmp/broken.pdf'') =
     Inl (ParsingError ''Error parsing PDF: No /Root object! - Is this really a PDF?'')"
proof -
  have raised: "try_block Parse_pdf sample ''/tmp/broken.pdf'' =
     Inl (Exception ''No /Root object! - Is this really a PDF?'')"
    by (simp add: parse_pdf_try_def sample_def)
  have called: "Called Parse_pdf ''/tmp/broken.pdf''
      \<in> set (fst (process_document sample ''/tmp/broken.pdf''))"
    by (simp add: process_document_def sample_def parser_dispatcher_mime_def)
  show ?thesis
    using parsing_error_wrapped[OF raised] raised called by simp
qed










lemma xlsx_rows_concat:
  "xlsx_rows rows acc =
     acc @ concat (map (\<lambda>row. join [CHR 0x09] (map str (filter truthy row)) @ [nl]) rows)"
  by (induction rows arbitrary: acc) simp_all

lemma xlsx_sheets_concat:
  "xlsx_sheets sheets acc =
     acc @ concat (map (\<lambda>sheet.
        concat (map (\<lambda>row. join [CHR 0x09] (map str (filter truthy row)) @ [nl]) sheet)) sheets)"
  by (induction sheets arbitrary: acc) (simp_all add: xlsx_rows_concat)

lemma parse_xlsx_text:
  assumes "load_workbook w file_path = Inr worksheets"
  shows "parse_xlsx w file_path =
     Inr (concat (map (\<lambda>sheet.
        concat (map (\<lambda>row. join [CHR 0x09] (map str (filter truthy row)) @ [nl]) sheet))
        worksheets))"
  using assms xlsx_sheets_concat[of worksheets "[]"]
  by (simp add: parse_xlsx_def parse_xlsx_try_def reraise_def)

text \<open>
  C8, at a failing input. A workbook of one sheet with the one row of cells 1, 0, 2: the
  cell holding the number 0 is not empty, and its value renders as \<open>0\<close>, yet the test
  \<open>if cell.value\<close> drops it with the empty cells. The parser returns the line \<open>1\t2\<close>,
  where the tab-joined values of the non-empty cells are \<open>1\t0\t2\<close>.
\<close>

theorem parse_xlsx_drops_zero:
  "load_workbook sample ''/tmp/book.xlsx'' = Inr [[[PyInt 1, PyInt 0, PyInt 2]]]
   \<and> parse_xlsx sample ''/tmp/book.xlsx'' = Inr [CHR ''1'', CHR 0x09, CHR ''2'', nl]
   \<and> join [CHR 0x09] (map str [PyInt 1, PyInt 0, PyInt 2])
       = [CHR ''1'', CHR 0x09, CHR ''0'', CHR 0x09, CHR ''2'']"
  by (simp add: sample_def parse_xlsx_def parse_xlsx_try_def reraise_def digits.simps
      char_of_def bit_Suc_0_iff)

section \<open>Extensions and case\<close>

lemma takeWhile_neq_append:
  "c \<notin> set xs \<Longrightarrow>
     takeWhile (\<lambda>x. x \<noteq> c) (xs @ ys) = xs @ takeWhile (\<lambda>x. x \<noteq> c) ys"
  by (induction xs) auto

lemma length_takeWhile_neq:
  "c \<in> set xs \<Longrightarrow> length (takeWhile (\<lambda>x. x \<noteq> c) xs) < length xs"
  by (induction xs) auto

lemma rfind_last:
  assumes "c \<notin> set e"
  shows "rfind c (a @ c # e) = int (length a)"
proof -
  have "takeWhile (\<lambda>x. x \<noteq> c) (rev e @ c # rev a) = rev e"
    using assms by (simp add: takeWhile_neq_append)
  then show ?thesis
    by (simp add: rfind_def)
qed

lemma rfind_before:
  assumes "c \<notin> set r"
  shows "\<exists>s. s \<le> length d \<and> rfind c (d @ r) = int s - 1"
proof (cases "c \<in> set d")
  case False
  with assms have "rfind c (d @ r) = - 1" by (simp add: rfind_def)
  then show ?thesis by (intro exI[of _ 0]) simp
next
  case True
  let ?k = "length (takeWhile (\<lambda>x. x \<noteq> c) (rev d))"
  have tw: "takeWhile (\<lambda>x. x \<noteq> c) (rev r @ rev d)
      = rev r @ takeWhile (\<lambda>x. x \<noteq> c) (rev d)"
    using assms by (simp add: takeWhile_neq_append)
  have "?k < length (rev d)"
    using True by (intro length_takeWhile_neq) simp
  hence k: "?k < length d" by simp
  have "rfind c (d @ r) = int (length d + length r - 1 - (length r + ?k))"
    using True tw by (simp add: rfind_def)
  also have "\<dots> = int (length d - ?k) - 1"
    using k by (simp add: of_nat_diff)
  finally show ?thesis
    by (intro exI[of _ "length d - ?k"]) simp
qed

lemma has_non_dot_append: "has_non_dot ys \<Longrightarrow> has_non_dot (xs @ ys)"
  by (induction xs) auto

lemma has_non_dot_iff: "has_non_dot s = (\<exists>c\<in>set s. c \<noteq> CHR ''.'')"
  by (induction s) auto

lemma splitext_stem_ext:
  assumes "CHR ''/'' \<notin> set stem" and "has_non_dot stem"
    and "CHR ''.'' \<notin> set e" and "CHR ''/'' \<notin> set e"
  shows "splitext (dir @ stem @ CHR ''.'' # e) = (dir @ stem, CHR ''.'' # e)"
proof -
  let ?p = "dir @ stem @ CHR ''.'' # e"
  have dot: "rfind CHR ''.'' ?p = int (length (dir @ stem))"
    using rfind_last[OF assms(3), of "dir @ stem"] by simp
  from assms(1,4) have "CHR ''/'' \<notin> set (stem @ CHR ''.'' # e)" by simp
  from rfind_before[OF this, of dir]
  obtain s where s: "s \<le> length dir" "rfind CHR ''/'' ?p = int s - 1" by auto
  have ne: "stem \<noteq> []" using assms(2) by auto
  have slice: "take (length dir + length stem - s) (drop s ?p) = drop s dir @ stem"
    using s(1) by simp
  have "has_non_dot (drop s dir @ stem)"
    using assms(2) by (rule has_non_dot_append)
  with dot s ne slice show ?thesis
    by (simp add: splitext_def Let_def)
qed

lemma csv_variant_shape:
  assumes "ext \<in> csv_variants"
  shows "lower ext = ''.csv''"
    and "\<exists>e. ext = CHR ''.'' # e \<and> CHR ''.'' \<notin> set e \<and> CHR ''/'' \<notin> set e"
  using assms
  by (auto simp add: csv_variants_def lower_def lower_char_def char_of_def bit_Suc_0_iff)

lemma md_variant_shape:
  assumes "ext \<in> md_variants"
  shows "lower ext = ''.md''"
    and "\<exists>e. ext = CHR ''.'' # e \<and> CHR ''.'' \<notin> set e \<and> CHR ''/'' \<notin> set e"
  using assms
  by (auto simp add: md_variants_def lower_def lower_char_def char_of_def bit_Suc_0_iff)

text \<open>
  C10, as the code has it. The extension is what \<open>os.path.splitext\<close> splits off, and it is
  lower-cased before the comparison. So for a non-empty file sniffed as \<open>text/plain\<close> whose
  name is a stem, with at least one character that is not a dot, followed by \<open>.csv\<close> in
  any mix of upper and lower case, the CSV parser is called and the type is \<open>text/csv\<close>;
  followed by \<open>.md\<close> in any mix of case, the Markdown parser is called and the type is
  \<open>text/markdown\<close>.
\<close>

theorem extension_case_insensitive:
  assumes "getsize w file_path = Inr n" and "n \<noteq> 0"
    and "from_file w file_path = Inr ''text/plain''"
    and "file_path = dir @ stem @ ext"
    and "CHR ''/'' \<notin> set stem" and "\<exists>c\<in>set stem. c \<noteq> CHR ''.''"
  shows
    "(ext \<in> csv_variants \<longrightarrow>
        process_document w file_path =
          ([Getsize file_path, From_file file_path, Called Parse_csv file_path],
           (case parse_csv w file_path of
              Inl e \<Rightarrow> Inl e
            | Inr raw_text \<Rightarrow> Inr (clean_text raw_text, ''text/csv''))))
   \<and> (ext \<in> md_variants \<longrightarrow>
        process_document w file_path =
          ([Getsize file_path, From_file file_path, Called Parse_markdown file_path],
           (case parse_markdown w file_path of
              Inl e \<Rightarrow> Inl e
            | Inr raw_text \<Rightarrow> Inr (clean_text raw_text, ''text/markdown''))))"
proof (intro conjI impI)
  have stem: "has_non_dot stem" using assms(6) by (simp add: has_non_dot_iff)
  {
    assume v: "ext \<in> csv_variants"
    from csv_variant_shape(2)[OF v] obtain e where
      e: "ext = CHR ''.'' # e" "CHR ''.'' \<notin> set e" "CHR ''/'' \<notin> set e" by blast
    have "snd (splitext file_path) = ext"
      using splitext_stem_ext[OF assms(5) stem e(2,3), of dir] assms(4) e(1) by simp
    then have "lower (snd (splitext file_path)) = ''.csv''"
      using csv_variant_shape(1)[OF v] by simp
    then show "process_document w file_path =
          ([Getsize file_path, From_file file_path, Called Parse_csv file_path],
           (case parse_csv w file_path of
              Inl e \<Rightarrow> Inl e
            | Inr raw_text \<Rightarrow> Inr (clean_text raw_text, ''text/csv'')))"
      by (simp add: process_document_sniffed[OF assms(1,2,3)])
  }
  {
    assume v: "ext \<in> md_variants"
    from md_variant_shape(2)[OF v] obtain e where
      e: "ext = CHR ''.'' # e" "CHR ''.'' \<notin> set e" "CHR ''/'' \<notin> set e" by blast
    have "snd (splitext file_path) = ext"
      using splitext_stem_ext[OF assms(5) stem e(2,3), of dir] assms(4) e(1) by simp
    then have "lower (snd (splitext file_path)) = ''.md''"
      using md_variant_shape(1)[OF v] by simp
    then show "process_document w file_path =
          ([Getsize file_path, From_file file_path, Called Parse_markdown file_path],
           (case parse_markdown w file_path of
              Inl e \<Rightarrow> Inl e
            | Inr raw_text \<Rightarrow> Inr (clean_text raw_text, ''text/markdown'')))"
      by (simp add: process_document_sniffed[OF assms(1,2,3)])
  }
qed

theorem extension_case_insensitive_witness:
  "process_document sample ''/tmp/DATA.Csv'' =
     ([Getsize ''/tmp/DATA.Csv'', From_file ''/tmp/DATA.Csv'',
       Called Parse_csv ''/tmp/DATA.Csv''],
      Inr ([CHR ''a'', CHR 0x09, CHR ''b'', nl, CHR ''c''], ''text/csv''))
   \<and> process_document sample ''/tmp/NOTES.Md'' =
     ([Getsize ''/tmp/NOTES.Md'', From_file ''/tmp/NOTES.Md'',
       Called Parse_markdown ''/tmp/NOTES.Md''],
      Inr (''Hi'', ''text/markdown''))"
proof -
  have variants: "''.Csv'' \<in> csv_variants" "''.Md'' \<in> md_variants"
    by (simp_all add: csv_variants_def md_variants_def)
  have names: "''/tmp/DATA.Csv'' = ''/tmp/'' @ ''DATA'' @ ''.Csv''"
    "''/tmp/NOTES.Md'' = ''/tmp/'' @ ''NOTES'' @ ''.Md''"
    by simp_all
  show ?thesis
    using extension_case_insensitive[OF sample_getsize _ sample_from_file(6) names(1)]
      extension_case_insensitive[OF sample_getsize _ sample_from_file(7) names(2)]
    by (simp add: variants sample_parsers sample_cleaned)
qed

text \<open>
  C10, as the claim states it, fails for a name that is nothing but the extension: the
  file \<open>/tmp/.CSV\<close> has a name that ends in \<open>.CSV\<close>, but a leading dot starts no
  extension, so the extension is empty and a \<open>text/plain\<close> file of that name goes to the
  plain-text parser and keeps the type \<open>text/plain\<close>.
\<close>

theorem dotfile_keeps_text_plain:
  "from_file sample ''/tmp/.CSV'' = Inr ''text/plain''
   \<and> splitext ''/tmp/.CSV'' = (''/tmp/.CSV'', [])
   \<and> process_document sample ''/tmp/.CSV'' =
       ([Getsize ''/tmp/.CSV'', From_file ''/tmp/.CSV'', Called Parse_text ''/tmp/.CSV''],
        Inr (''hello'', ''text/plain''))"
  by (simp add: sample_def process_document_def splitext_def rfind_def lower_def
      parse_text_def parse_text_try_def reraise_def clean_text_def strip_def isspace_def)

end
